theory Spec2Isabelle
  imports Complex_Main
begin

section \<open>Settings synchronisation over git: a model of the sync extension\<close>

text \<open>
  The three services of the extension are modelled function by function:
  \<^item> \<open>GitService\<close> (the wrapper around the git client),
  \<^item> \<open>ExtensionService\<close> (the extension list and its reconciliation),
  \<^item> \<open>SyncService\<close> (file mirroring, change detection, \<open>sync\<close>, the force paths).

  A JavaScript \<open>Error\<close> is a value \<open>Error message\<close>; a function that may throw returns
  \<open>error + 'a\<close> next to the state it leaves behind, so that the state after a throw can be
  inspected. An awaited call to a collaborator (the git client, \<open>fs.promises\<close>, a host
  command) either resolves or rejects; which of the two happens is not decided by the
  program, so every such call takes its \<open>reply\<close> from an environment record.
  \<open>getUserSettingsPath\<close>, which creates the settings directory with \<open>fs.mkdirSync\<close>, may
  throw as well and takes its reply from there too. The other synchronous library calls
  (\<open>fs.existsSync\<close>, reading the configuration, logging) are taken to return, and the
  configuration is taken to have the types the source declares for it.
\<close>

subsection \<open>Errors, replies, sequencing\<close>

datatype error = Error string

fun message :: "error \<Rightarrow> string" where
  "message (Error m) = m"

datatype 'a reply = Resolves 'a | Rejects string

type_synonym 'a result = "error + 'a"

text \<open>
  A block of awaited statements: each step runs on the state the previous one left; the
  first step that throws ends the block with its error.
\<close>

fun seq :: "('s \<Rightarrow> unit result \<times> 's) list \<Rightarrow> 's \<Rightarrow> unit result \<times> 's" where
  "seq [] s = (Inr (), s)"
| "seq (f # fs) s = (case f s of (Inl e, s') \<Rightarrow> (Inl e, s') | (Inr _, s') \<Rightarrow> seq fs s')"

subsection \<open>Configuration\<close>

text \<open>
  \<open>syncInterval\<close> and \<open>debounceDelay\<close> are numbers of seconds; the source takes any
  number the settings hold, so they are rationals here.
\<close>

record files_config =
  patterns :: "string list"
  excludePatterns :: "string list"
  externalFiles :: "(string \<times> string) list"

record config =
  repositoryUrl :: string
  branch :: string
  pullBeforePush :: bool
  pullBeforeForcePush :: bool
  syncInterval :: rat
  debounceDelay :: rat
  pullOnLaunch :: bool
  filesConfig :: "files_config option"
  extensionsSync :: bool
  extensionsAutoRemove :: bool

text \<open>\<open>config.get('branch') || 'main'\<close>: an empty branch name falls back to \<open>main\<close>.\<close>

definition branch_or_main :: "config \<Rightarrow> string" where
  "branch_or_main cfg = (if branch cfg = [] then ''main'' else branch cfg)"

text \<open>
  The delay Node's \<open>setTimeout\<close> really waits, in milliseconds: a delay below 1 or above
  \<open>TIMEOUT_MAX\<close> is replaced by 1, and what is left is truncated to whole milliseconds.
\<close>

definition TIMEOUT_MAX :: int where
  "TIMEOUT_MAX = 2147483647"

definition node_delay :: "rat \<Rightarrow> int" where
  "node_delay after = (if 1 \<le> after \<and> after \<le> of_int TIMEOUT_MAX then \<lfloor>after\<rfloor> else 1)"

subsection \<open>GitService\<close>

text \<open>
  The repository itself is outside the program. The model keeps what the service and its
  callers can tell apart:
  \<^item> \<open>worktree\<close>, what \<open>git status\<close> lists for the working directory: the modified, the
    untracked and the deleted paths;
  \<^item> \<open>unpushed\<close>, the commits on the local branch that are not on the remote, counted
    from where the branch stood (a reset past that point makes it negative);
  \<^item> \<open>issued\<close>, the commands sent to the git client so far, each with its outcome.

  A \<open>commit\<close> follows \<open>add .\<close> wherever the source commits, so it records everything the
  status lists: it adds one commit when the status lists something and none when the
  working directory is clean, and leaves it clean. \<open>reset --hard\<close> restores the tracked
  files and leaves the untracked ones; to \<open>HEAD~1\<close> it drops one commit, to the remote
  branch it drops all that are unpushed. A push that resolves publishes them. Pulling,
  fetching and checking out list nothing new: what they bring is committed.
\<close>

record status_result =
  modified :: "string list"
  not_added :: "string list"
  deleted :: "string list"

definition has_changes :: "status_result \<Rightarrow> bool" where
  "has_changes st =
     (length (modified st) > 0 \<or> length (not_added st) > 0 \<or> length (deleted st) > 0)"

definition clean_status :: status_result where
  "clean_status = \<lparr>modified = [], not_added = [], deleted = []\<rparr>"

datatype git_cmd =
    Git_init
  | Git_addRemote string string
  | Git_fetch string
  | Git_checkout string
  | Git_checkoutLocalBranch string
  | Git_pull_origin string
  | Git_pull_rebase
  | Git_pull
  | Git_add string
  | Git_commit string
  | Git_push
  | Git_push_force
  | Git_reset_hard string
  | Git_revparse_HEAD
  | Git_status

record git_service =
  workingDirectory :: string
  initialized :: bool
  worktree :: status_result
  unpushed :: int
  issued :: "(git_cmd \<times> bool) list"

definition tracked_restored :: "status_result \<Rightarrow> status_result" where
  "tracked_restored st = st\<lparr>modified := [], deleted := []\<rparr>"

fun git_effect :: "git_cmd \<Rightarrow> git_service \<Rightarrow> git_service" where
  "git_effect (Git_commit m) g =
     (if has_changes (worktree g)
      then g\<lparr>unpushed := unpushed g + 1, worktree := clean_status\<rparr> else g)"
| "git_effect Git_push g = g\<lparr>unpushed := 0\<rparr>"
| "git_effect Git_push_force g = g\<lparr>unpushed := 0\<rparr>"
| "git_effect (Git_reset_hard target) g =
     (if target = ''HEAD~1''
      then g\<lparr>unpushed := unpushed g - 1, worktree := tracked_restored (worktree g)\<rparr>
      else g\<lparr>unpushed := 0, worktree := tracked_restored (worktree g)\<rparr>)"
| "git_effect c g = g"

definition git_run :: "unit reply \<Rightarrow> git_cmd \<Rightarrow> git_service \<Rightarrow> unit result \<times> git_service" where
  "git_run r c g =
     (case r of
        Rejects m \<Rightarrow> (Inl (Error m), g\<lparr>issued := issued g @ [(c, False)]\<rparr>)
      | Resolves _ \<Rightarrow> (Inr (), git_effect c (g\<lparr>issued := issued g @ [(c, True)]\<rparr>)))"

text \<open>
  While the service awaits the user or the network, the host runs its other handlers.
  Two of them write into the working directory without looking at a guard when they
  run: the callback of the debounce timer and the configuration watcher, both through
  \<open>copyFilesToWorkingDir\<close>. \<open>Some st\<close> says that this happened during an await and that
  the status lists \<open>st\<close> afterwards; \<open>None\<close> that nothing was written.
\<close>

definition others_wrote :: "status_result option \<Rightarrow> git_service \<Rightarrow> git_service" where
  "others_wrote w g = (case w of None \<Rightarrow> g | Some st \<Rightarrow> g\<lparr>worktree := st\<rparr>)"

definition isInitialized :: "git_service \<Rightarrow> bool" where
  "isInitialized g = initialized g"

text \<open>\<open>GitService.pull\<close>: the initialised check is outside the \<open>try\<close>, the rebase pull inside.\<close>

definition git_pull :: "unit reply \<Rightarrow> git_service \<Rightarrow> unit result \<times> git_service" where
  "git_pull r g =
     (if \<not> initialized g then (Inl (Error ''Git service not initialized''), g)
      else case git_run r Git_pull_rebase g of
             (Inl e, g') \<Rightarrow> (Inl (Error (''Failed to pull changes: '' @ message e)), g')
           | (Inr u, g') \<Rightarrow> (Inr u, g'))"

text \<open>
  \<open>GitService.push\<close>. The replies of its git calls, in the order of the source, the
  button the user picks in the error prompt (\<open>None\<close>: the prompt is dismissed), and what
  the other handlers wrote while the prompt was open.
\<close>

record push_env =
  pre_pull :: "unit reply"
  first_add :: "unit reply"
  first_commit :: "unit reply"
  first_push :: "unit reply"
  rollback :: "unit reply"
  written_during_prompt :: "status_result option"
  choice :: "string option"
  retry_pull :: "unit reply"
  retry_add :: "unit reply"
  retry_commit :: "unit reply"
  retry_push :: "unit reply"

definition push_retry :: "push_env \<Rightarrow> git_service \<Rightarrow> unit result \<times> git_service" where
  "push_retry e g =
     (case seq [git_run (retry_pull e) Git_pull_rebase,
                git_run (retry_add e) (Git_add ''.''),
                git_run (retry_commit e) (Git_commit ''Update settings''),
                git_run (retry_push e) Git_push] g of
        (Inl retryError, g') \<Rightarrow>
          (Inl (Error (''Failed to reconcile changes. Repository location: ''
                       @ workingDirectory g')), g')
      | (Inr u, g') \<Rightarrow> (Inr u, g'))"

definition push_rejected :: "config \<Rightarrow> push_env \<Rightarrow> git_service \<Rightarrow> unit result \<times> git_service" where
  "push_rejected cfg e g =
     (case git_run (rollback e) (Git_reset_hard ''HEAD~1'') g of
        (Inl resetError, g') \<Rightarrow> (Inl resetError, g')
      | (Inr _, g') \<Rightarrow>
          if choice e = Some ''Pull and Retry''
          then push_retry e (others_wrote (written_during_prompt e) g')
          else (Inl (Error (''Push failed to '' @ repositoryUrl cfg
                            @ '' ('' @ branch_or_main cfg @ '')'')),
                others_wrote (written_during_prompt e) g'))"

definition push_attempt :: "config \<Rightarrow> push_env \<Rightarrow> git_service \<Rightarrow> unit result \<times> git_service" where
  "push_attempt cfg e g =
     (case git_run (first_push e) Git_push g of
        (Inl pushError, g') \<Rightarrow> push_rejected cfg e g'
      | (Inr u, g') \<Rightarrow> (Inr u, g'))"

definition git_push :: "config \<Rightarrow> push_env \<Rightarrow> git_service \<Rightarrow> unit result \<times> git_service" where
  "git_push cfg e g =
     (if \<not> isInitialized g then (Inl (Error ''Git service not initialized''), g)
      else case seq [(\<lambda>g. if pullBeforePush cfg then git_run (pre_pull e) Git_pull_rebase g
                           else (Inr (), g)),
                     git_run (first_add e) (Git_add ''.''),
                     git_run (first_commit e) (Git_commit ''Update settings''),
                     push_attempt cfg e] g of
             (Inl err, g') \<Rightarrow> (Inl (Error (''Failed to push changes: '' @ message err)), g')
           | (Inr u, g') \<Rightarrow> (Inr u, g'))"

text \<open>
  \<open>GitService.initialize\<close>. \<open>makeWorkingDirectory\<close> is the reply of creating the working
  directory when it is missing (outside the \<open>try\<close>); \<open>isRepo\<close> is what \<open>fs.existsSync\<close>
  answers for the \<open>.git\<close> directory. A checkout that fails falls back to creating the
  branch, followed by a pull whose failure is dropped.
\<close>

record init_env =
  makeWorkingDirectory :: "unit reply"
  isRepo :: bool
  init_reply :: "unit reply"
  addRemote_reply :: "unit reply"
  fetch_reply :: "unit reply"
  checkout_reply :: "unit reply"
  checkoutLocalBranch_reply :: "unit reply"
  branch_pull_reply :: "unit reply"

definition checkout_branch :: "config \<Rightarrow> init_env \<Rightarrow> git_service \<Rightarrow> unit result \<times> git_service" where
  "checkout_branch cfg e g =
     (case git_run (checkout_reply e) (Git_checkout (branch_or_main cfg)) g of
        (Inr u, g') \<Rightarrow> (Inr u, g')
      | (Inl checkoutError, g') \<Rightarrow>
          (case git_run (checkoutLocalBranch_reply e)
                        (Git_checkoutLocalBranch (branch_or_main cfg)) g' of
             (Inl err, g'') \<Rightarrow> (Inl err, g'')
           | (Inr _, g'') \<Rightarrow>
               (Inr (), snd (git_run (branch_pull_reply e)
                                     (Git_pull_origin (branch_or_main cfg)) g''))))"

definition git_initialize :: "config \<Rightarrow> init_env \<Rightarrow> git_service \<Rightarrow> unit result \<times> git_service" where
  "git_initialize cfg e g =
     (if repositoryUrl cfg = [] then (Inl (Error ''Git repository URL is not configured''), g)
      else case makeWorkingDirectory e of
             Rejects m \<Rightarrow> (Inl (Error m), g)
           | Resolves _ \<Rightarrow>
               (case seq [(\<lambda>g. if \<not> isRepo e
                                then seq [git_run (init_reply e) Git_init,
                                          git_run (addRemote_reply e)
                                                  (Git_addRemote ''origin'' (repositoryUrl cfg))] g
                                else (Inr (), g)),
                          git_run (fetch_reply e) (Git_fetch ''origin''),
                          checkout_branch cfg e] g of
                  (Inl err, g') \<Rightarrow>
                    (Inl (Error (''Failed to initialize git: '' @ message err)), g')
                | (Inr u, g') \<Rightarrow> (Inr u, g'\<lparr>initialized := True\<rparr>)))"

text \<open>\<open>GitService.forcePush\<close> and \<open>GitService.forcePull\<close>.\<close>

record force_push_env =
  fp_pull :: "unit reply"
  fp_add :: "unit reply"
  fp_commit :: "unit reply"
  fp_push :: "unit reply"

definition git_forcePush :: "config \<Rightarrow> force_push_env \<Rightarrow> git_service \<Rightarrow> unit result \<times> git_service" where
  "git_forcePush cfg e g =
     (if \<not> isInitialized g then (Inl (Error ''Git service not initialized''), g)
      else case seq [(\<lambda>g. if pullBeforeForcePush cfg then git_run (fp_pull e) Git_pull g
                           else (Inr (), g)),
                     git_run (fp_add e) (Git_add ''.''),
                     git_run (fp_commit e) (Git_commit ''Force update settings''),
                     git_run (fp_push e) Git_push_force] g of
             (Inl err, g') \<Rightarrow> (Inl (Error (''Failed to force push changes: '' @ message err)), g')
           | (Inr u, g') \<Rightarrow> (Inr u, g'))"

record force_pull_env =
  fpl_fetch :: "unit reply"
  fpl_revparse :: "string reply"
  fpl_reset :: "unit reply"

definition revparse_then_reset :: "force_pull_env \<Rightarrow> git_service \<Rightarrow> unit result \<times> git_service" where
  "revparse_then_reset e g =
     (case fpl_revparse e of
        Rejects m \<Rightarrow> (Inl (Error m), g\<lparr>issued := issued g @ [(Git_revparse_HEAD, False)]\<rparr>)
      | Resolves current \<Rightarrow>
          git_run (fpl_reset e) (Git_reset_hard (''origin/'' @ current))
                  (g\<lparr>issued := issued g @ [(Git_revparse_HEAD, True)]\<rparr>))"

definition git_forcePull :: "force_pull_env \<Rightarrow> git_service \<Rightarrow> unit result \<times> git_service" where
  "git_forcePull e g =
     (if \<not> initialized g then (Inl (Error ''Git service not initialized''), g)
      else case seq [git_run (fpl_fetch e) (Git_fetch ''origin''), revparse_then_reset e] g of
             (Inl err, g') \<Rightarrow> (Inl (Error (''Failed to force pull changes: '' @ message err)), g')
           | (Inr u, g') \<Rightarrow> (Inr u, g'))"

text \<open>
  \<open>GitService.hasChanges\<close>: \<open>false\<close> before initialisation, otherwise whether the status
  lists a modified, untracked or deleted path. A status call that rejects is not caught.
\<close>

definition hasChanges :: "unit reply \<Rightarrow> git_service \<Rightarrow> bool result \<times> git_service" where
  "hasChanges r g =
     (if \<not> initialized g then (Inr False, g)
      else case r of
             Rejects m \<Rightarrow> (Inl (Error m), g\<lparr>issued := issued g @ [(Git_status, False)]\<rparr>)
           | Resolves _ \<Rightarrow>
               (Inr (has_changes (worktree g)), g\<lparr>issued := issued g @ [(Git_status, True)]\<rparr>))"

subsection \<open>ExtensionService\<close>

text \<open>
  The host's side: \<open>allExtensions\<close> is \<open>vscode.extensions.all\<close>, \<open>executed\<close> the install and
  uninstall commands sent so far (whether or not they succeeded), \<open>extensionsFile\<close> the
  file \<open>extensions.json\<close> of the working directory, kept as what reading and parsing it
  gives. An install that resolves adds the extension to the host's list unless it is
  there already (the version the host picks is not modelled); an uninstall that resolves
  removes it.
\<close>

record extension =
  ext_id :: string
  ext_version :: string
  isBuiltin :: bool

record extension_info =
  info_id :: string
  info_version :: "string option"

datatype host_command = Install string | Uninstall string

datatype extensions_file = Absent | Unreadable string | Listed "extension_info list"

record extension_host =
  allExtensions :: "extension list"
  executed :: "host_command list"
  extensionsFile :: extensions_file

record ext_env =
  install_reply :: "string \<Rightarrow> unit reply"
  uninstall_reply :: "string \<Rightarrow> unit reply"
  write_reply :: "unit reply"

definition getCurrentExtensions :: "extension_host \<Rightarrow> extension_info list" where
  "getCurrentExtensions h =
     map (\<lambda>ext. \<lparr>info_id = ext_id ext, info_version = Some (ext_version ext)\<rparr>)
         (filter (\<lambda>ext. \<not> isBuiltin ext) (allExtensions h))"

definition saveExtensionsToFile ::
  "ext_env \<Rightarrow> extension_info list \<Rightarrow> extension_host \<Rightarrow> unit result \<times> extension_host" where
  "saveExtensionsToFile e extensions h =
     (case write_reply e of
        Rejects m \<Rightarrow> (Inl (Error m), h)
      | Resolves _ \<Rightarrow> (Inr (), h\<lparr>extensionsFile := Listed extensions\<rparr>))"

definition pushExtensions :: "config \<Rightarrow> ext_env \<Rightarrow> extension_host \<Rightarrow> unit result \<times> extension_host" where
  "pushExtensions cfg e h =
     (if \<not> extensionsSync cfg then (Inr (), h)
      else saveExtensionsToFile e (getCurrentExtensions h) h)"

definition readSyncedExtensions :: "extension_host \<Rightarrow> extension_info list option result" where
  "readSyncedExtensions h =
     (case extensionsFile h of
        Absent \<Rightarrow> Inr None
      | Unreadable m \<Rightarrow> Inl (Error m)
      | Listed extensions \<Rightarrow> Inr (Some extensions))"

definition install_one :: "ext_env \<Rightarrow> string \<Rightarrow> extension_host \<Rightarrow> extension_host" where
  "install_one e i h =
     (case install_reply e i of
        Rejects m \<Rightarrow> h\<lparr>executed := executed h @ [Install i]\<rparr>
      | Resolves _ \<Rightarrow>
          h\<lparr>executed := executed h @ [Install i],
            allExtensions :=
              (if i \<in> set (map ext_id (allExtensions h)) then allExtensions h
               else allExtensions h @ [\<lparr>ext_id = i, ext_version = [], isBuiltin = False\<rparr>])\<rparr>)"

definition uninstall_one :: "ext_env \<Rightarrow> string \<Rightarrow> extension_host \<Rightarrow> extension_host" where
  "uninstall_one e i h =
     (case uninstall_reply e i of
        Rejects m \<Rightarrow> h\<lparr>executed := executed h @ [Uninstall i]\<rparr>
      | Resolves _ \<Rightarrow>
          h\<lparr>executed := executed h @ [Uninstall i],
            allExtensions := filter (\<lambda>ext. ext_id ext \<noteq> i) (allExtensions h)\<rparr>)"

text \<open>
  The two loops catch the error of each command and go on; \<open>fold\<close> runs the body over the
  list computed before the loop starts.
\<close>

definition installMissingExtensions ::
  "ext_env \<Rightarrow> extension_info list \<Rightarrow> extension_host \<Rightarrow> extension_host" where
  "installMissingExtensions e syncedExtensions h =
     (let currentExtensions = map ext_id (allExtensions h);
          extensionsToInstall =
            filter (\<lambda>ext. info_id ext \<notin> set currentExtensions) syncedExtensions
      in fold (\<lambda>ext. install_one e (info_id ext)) extensionsToInstall h)"

definition removeExtraExtensions ::
  "ext_env \<Rightarrow> extension_info list \<Rightarrow> extension_host \<Rightarrow> extension_host" where
  "removeExtraExtensions e syncedExtensions h =
     (let syncedExtensionIds = map info_id syncedExtensions;
          extraExtensions =
            filter (\<lambda>ext. \<not> isBuiltin ext \<and> ext_id ext \<notin> set syncedExtensionIds)
                   (allExtensions h)
      in fold (\<lambda>ext. uninstall_one e (ext_id ext)) extraExtensions h)"

definition pullExtensions :: "config \<Rightarrow> ext_env \<Rightarrow> extension_host \<Rightarrow> unit result \<times> extension_host" where
  "pullExtensions cfg e h =
     (if \<not> extensionsSync cfg then (Inr (), h)
      else case readSyncedExtensions h of
             Inl err \<Rightarrow> (Inl err, h)
           | Inr None \<Rightarrow> (Inr (), h)
           | Inr (Some syncedExtensions) \<Rightarrow>
               (let h1 = installMissingExtensions e syncedExtensions h
                in (Inr (), if extensionsAutoRemove cfg
                            then removeExtraExtensions e syncedExtensions h1 else h1)))"

subsection \<open>Paths and file copies\<close>

text \<open>
  The path helpers of Node on a POSIX host. \<open>path_join\<close> joins the non-empty segments with
  a separator and normalises the result as \<open>path.posix.normalize\<close> does: empty and \<open>.\<close>
  segments go, \<open>..\<close> takes back the segment before it (at the root it goes, in front of
  a relative path it stays), a trailing separator is kept. \<open>path_relative\<close> is applied
  only to what the glob returned for that same directory.
\<close>

fun split_slash :: "string \<Rightarrow> string list" where
  "split_slash [] = [[]]"
| "split_slash (c # cs) =
     (if c = CHR ''/'' then [] # split_slash cs
      else case split_slash cs of [] \<Rightarrow> [[c]] | seg # segs \<Rightarrow> (c # seg) # segs)"

fun normalizeString :: "bool \<Rightarrow> string list \<Rightarrow> string list \<Rightarrow> string list" where
  "normalizeString allowAboveRoot kept [] = rev kept"
| "normalizeString allowAboveRoot kept (seg # segs) =
     (if seg = [] \<or> seg = ''.'' then normalizeString allowAboveRoot kept segs
      else if seg = ''..'' then
        (case kept of
           [] \<Rightarrow> normalizeString allowAboveRoot (if allowAboveRoot then [''..''] else []) segs
         | lastSeg # before \<Rightarrow>
             if lastSeg = ''..'' then normalizeString allowAboveRoot (''..'' # kept) segs
             else normalizeString allowAboveRoot before segs)
      else normalizeString allowAboveRoot (seg # kept) segs)"

fun join_slash :: "string list \<Rightarrow> string" where
  "join_slash [] = []"
| "join_slash [seg] = seg"
| "join_slash (seg # segs) = seg @ ''/'' @ join_slash segs"

definition path_normalize :: "string \<Rightarrow> string" where
  "path_normalize p =
     (if p = [] then ''.''
      else let isAbsolute = (hd p = CHR ''/'');
               trailingSeparator = (last p = CHR ''/'');
               body = join_slash (normalizeString (\<not> isAbsolute) [] (split_slash p))
           in if body = [] then (if isAbsolute then ''/'' else if trailingSeparator then ''./'' else ''.'')
              else (if isAbsolute then ''/'' else '''') @ body
                   @ (if trailingSeparator then ''/'' else ''''))"

definition path_join :: "string \<Rightarrow> string \<Rightarrow> string" where
  "path_join a b =
     path_normalize (if a = [] then b else if b = [] then a else a @ ''/'' @ b)"

definition path_isAbsolute :: "string \<Rightarrow> bool" where
  "path_isAbsolute p = (case p of [] \<Rightarrow> False | c # _ \<Rightarrow> c = CHR ''/'')"

definition path_dirname :: "string \<Rightarrow> string" where
  "path_dirname p =
     (if CHR ''/'' \<notin> set p then ''.''
      else let d = rev (tl (dropWhile (\<lambda>c. c \<noteq> CHR ''/'') (rev p)))
           in if d = [] then ''/'' else d)"

definition path_relative :: "string \<Rightarrow> string \<Rightarrow> string" where
  "path_relative from to =
     (if take (length from + 1) to = from @ ''/'' then drop (length from + 1) to else to)"

definition startsWith_tilde :: "string \<Rightarrow> bool" where
  "startsWith_tilde p = (case p of [] \<Rightarrow> False | c # _ \<Rightarrow> c = CHR ''~'')"

text \<open>
  What the service reads from its surroundings when it mirrors files and sets up its
  watchers:
  \<^item> \<open>fg patterns ignore cwd\<close>, the reply of the glob (absolute paths);
  \<^item> \<open>settingsDir\<close>, the reply of \<open>getUserSettingsPath\<close>: the user settings directory, or
    the error of the \<open>fs.mkdirSync\<close> that creates it;
  \<^item> \<open>home\<close>, the value of \<open>HOME\<close>;
  \<^item> the replies of \<open>fs.promises.mkdir\<close> and \<open>fs.promises.copyFile\<close>;
  \<^item> \<open>mkdirSync_throws dir\<close>: \<open>dir\<close> does not exist and creating it throws;
  \<^item> whether creating a watcher for a pattern, or \<open>fs.watch\<close> on a path, throws;
  \<^item> \<open>status_after_mirror\<close>: what \<open>git status\<close> lists once the live files have been
    copied into the working directory, from what it listed before. It depends on the
    contents of the files and of the last commit, which the model does not compare.
\<close>

record fs_env =
  fg :: "string list \<Rightarrow> string list \<Rightarrow> string \<Rightarrow> string list reply"
  settingsDir :: "string reply"
  home :: string
  mkdir_reply :: "string \<Rightarrow> unit reply"
  copyFile_reply :: "string \<Rightarrow> string \<Rightarrow> unit reply"
  mkdirSync_throws :: "string \<Rightarrow> bool"
  createWatcher_throws :: "string \<Rightarrow> bool"
  watch_throws :: "string \<Rightarrow> bool"
  status_after_mirror :: "status_result \<Rightarrow> status_result"

text \<open>
  The disk maps a path to the content of the file there. \<open>console\<close> holds the lines that
  \<open>copyFile\<close> logs for a source that does not exist.
\<close>

record disk =
  files :: "string \<Rightarrow> string option"
  console :: "string list"

definition existsSync :: "disk \<Rightarrow> string \<Rightarrow> bool" where
  "existsSync d p = (files d p \<noteq> None)"

definition copy_failure :: "string \<Rightarrow> string \<Rightarrow> string \<Rightarrow> error" where
  "copy_failure source target m =
     Error (''Failed to copy file '' @ source @ '' to '' @ target @ '': '' @ m)"

definition copyFile :: "fs_env \<Rightarrow> string \<Rightarrow> string \<Rightarrow> disk \<Rightarrow> unit result \<times> disk" where
  "copyFile fe source target d =
     (if existsSync d source then
        (case mkdir_reply fe (path_dirname target) of
           Rejects m \<Rightarrow> (Inl (copy_failure source target m), d)
         | Resolves _ \<Rightarrow>
             (case copyFile_reply fe source target of
                Rejects m \<Rightarrow> (Inl (copy_failure source target m), d)
              | Resolves _ \<Rightarrow> (Inr (), d\<lparr>files := (files d)(target := files d source)\<rparr>)))
      else if CHR ''~'' \<in> set source \<or> path_isAbsolute source then
        (Inr (), d\<lparr>console := console d @ [''Optional external file not found: '' @ source]\<rparr>)
      else
        (Inr (), d\<lparr>console := console d @ [''Source file does not exist: '' @ source]\<rparr>))"

definition default_files :: files_config where
  "default_files =
     \<lparr>patterns = [''settings.json'', ''keybindings.json''], excludePatterns = [],
      externalFiles = []\<rparr>"

definition files_or_default :: "config \<Rightarrow> files_config" where
  "files_or_default cfg = (case filesConfig cfg of None \<Rightarrow> default_files | Some fc \<Rightarrow> fc)"

definition getUserSettingsPath :: "fs_env \<Rightarrow> string result" where
  "getUserSettingsPath fe =
     (case settingsDir fe of Rejects m \<Rightarrow> Inl (Error m) | Resolves p \<Rightarrow> Inr p)"

definition expand_home :: "fs_env \<Rightarrow> string \<Rightarrow> string" where
  "expand_home fe source =
     (if startsWith_tilde source then path_join (home fe) (drop 1 source) else source)"

text \<open>
  The (source, target) pairs of the two loops of each mirror, in the order they run,
  for the files \<open>found\<close> by the glob.
\<close>

definition files_to_working_dir ::
  "files_config \<Rightarrow> fs_env \<Rightarrow> string \<Rightarrow> string \<Rightarrow> string list \<Rightarrow> (string \<times> string) list" where
  "files_to_working_dir fileConfig fe userSettingsPath workingDir found =
     map (\<lambda>file. (file, path_join workingDir (path_relative userSettingsPath file))) found
     @ map (\<lambda>(source, target). (expand_home fe source, path_join workingDir target))
           (externalFiles fileConfig)"

definition files_from_working_dir ::
  "files_config \<Rightarrow> fs_env \<Rightarrow> string \<Rightarrow> string \<Rightarrow> string list \<Rightarrow> (string \<times> string) list" where
  "files_from_working_dir fileConfig fe userSettingsPath workingDir found =
     map (\<lambda>file. (file, path_join userSettingsPath (path_relative workingDir file))) found
     @ map (\<lambda>(source, target). (path_join workingDir target, expand_home fe source))
           (externalFiles fileConfig)"

definition copy_batch :: "fs_env \<Rightarrow> (string \<times> string) list \<Rightarrow> disk \<Rightarrow> unit result \<times> disk" where
  "copy_batch fe batch d = seq (map (\<lambda>(source, target). copyFile fe source target) batch) d"

subsection \<open>SyncService: state\<close>

text \<open>
  Times are milliseconds, as \<open>Date.now()\<close> gives them. A pending \<open>setTimeout\<close> is kept by
  the time it falls due: \<open>debounceTimer\<close> and \<open>syncTimer\<close> for the two handles the service
  stores (a handle whose timer has fired is inert, so it is kept as \<open>None\<close>), \<open>timeouts\<close>
  for the callbacks that release a guard. \<open>lastEventTime\<close> is the per-path map of the
  watchers' event handler. An operation runs at one instant \<open>now\<close>.
\<close>

datatype timeout_callback = Release_sync_lock | Release_remote_changes_lock

datatype disposable =
    Config_watcher
  | Pattern_watcher string
  | Native_watcher string
  | Native_watchers string
  | Extension_watcher

record sync_service =
  isEnabled :: bool
  isSyncing :: bool
  isApplyingRemoteChanges :: bool
  debounceTimer :: "int option"
  syncTimer :: "int option"
  timeouts :: "(int \<times> timeout_callback) list"
  lastEventTime :: "string \<Rightarrow> int option"
  disposables :: "disposable list"
  watchedFiles :: "string list"
  gitService :: git_service
  extensionHost :: extension_host
  localDisk :: disk

text \<open>
  The replies one operation of the service may need, one field per call site.
  \<open>written_during_pull\<close> is what the other handlers wrote into the working directory
  while \<open>GitService.pull\<close> was awaited; \<open>status_after_snapshot\<close> what \<open>git status\<close> lists
  once \<open>extensions.json\<close> has been rewritten, from what it listed before.
\<close>

record env =
  init_replies :: init_env
  status_on_expiry :: "unit reply"
  status_first :: "unit reply"
  status_second :: "unit reply"
  pull_reply :: "unit reply"
  written_during_pull :: "status_result option"
  push_replies :: push_env
  force_push_replies :: force_push_env
  force_pull_replies :: force_pull_env
  files_env :: fs_env
  host_env :: ext_env
  status_after_snapshot :: "status_result \<Rightarrow> status_result"

subsection \<open>SyncService: calls into the collaborating services\<close>

definition gitService_hasChanges :: "unit reply \<Rightarrow> sync_service \<Rightarrow> bool result \<times> sync_service" where
  "gitService_hasChanges r s =
     (case hasChanges r (gitService s) of (b, g') \<Rightarrow> (b, s\<lparr>gitService := g'\<rparr>))"

definition gitService_pull ::
  "unit reply \<Rightarrow> status_result option \<Rightarrow> sync_service \<Rightarrow> unit result \<times> sync_service" where
  "gitService_pull r written s =
     (case git_pull r (gitService s) of
        (res, g') \<Rightarrow> (res, s\<lparr>gitService := others_wrote written g'\<rparr>))"

definition gitService_push :: "config \<Rightarrow> push_env \<Rightarrow> sync_service \<Rightarrow> unit result \<times> sync_service" where
  "gitService_push cfg e s =
     (case git_push cfg e (gitService s) of (res, g') \<Rightarrow> (res, s\<lparr>gitService := g'\<rparr>))"

definition gitService_forcePush ::
  "config \<Rightarrow> force_push_env \<Rightarrow> sync_service \<Rightarrow> unit result \<times> sync_service" where
  "gitService_forcePush cfg e s =
     (case git_forcePush cfg e (gitService s) of (res, g') \<Rightarrow> (res, s\<lparr>gitService := g'\<rparr>))"

definition gitService_forcePull :: "force_pull_env \<Rightarrow> sync_service \<Rightarrow> unit result \<times> sync_service" where
  "gitService_forcePull e s =
     (case git_forcePull e (gitService s) of (res, g') \<Rightarrow> (res, s\<lparr>gitService := g'\<rparr>))"

text \<open>
  \<open>pushExtensions\<close> writes \<open>extensions.json\<close> into the working directory when extension
  sync is on and the write resolves; the status of the working directory follows.
\<close>

definition extensionService_pushExtensions ::
  "config \<Rightarrow> env \<Rightarrow> sync_service \<Rightarrow> unit result \<times> sync_service" where
  "extensionService_pushExtensions cfg e s =
     (case pushExtensions cfg (host_env e) (extensionHost s) of
        (Inl err, h') \<Rightarrow> (Inl err, s\<lparr>extensionHost := h'\<rparr>)
      | (Inr u, h') \<Rightarrow>
          (Inr u, s\<lparr>extensionHost := h',
                    gitService :=
                      (if extensionsSync cfg
                       then (gitService s)\<lparr>worktree := status_after_snapshot e (worktree (gitService s))\<rparr>
                       else gitService s)\<rparr>))"

definition extensionService_pullExtensions ::
  "config \<Rightarrow> ext_env \<Rightarrow> sync_service \<Rightarrow> unit result \<times> sync_service" where
  "extensionService_pullExtensions cfg e s =
     (case pullExtensions cfg e (extensionHost s) of
        (res, h') \<Rightarrow> (res, s\<lparr>extensionHost := h'\<rparr>))"

subsection \<open>SyncService: mirroring\<close>

text \<open>
  \<open>copyFilesToWorkingDir\<close>: \<open>getUserSettingsPath\<close> and the glob come first and may throw;
  then the two loops copy. Whatever the loops wrote stays when one of their copies
  throws.
\<close>

definition copyFilesToWorkingDir :: "config \<Rightarrow> fs_env \<Rightarrow> sync_service \<Rightarrow> unit result \<times> sync_service" where
  "copyFilesToWorkingDir cfg fe s =
     (case getUserSettingsPath fe of
        Inl err \<Rightarrow> (Inl err, s)
      | Inr userSettingsPath \<Rightarrow>
          (let fileConfig = files_or_default cfg
           in case fg fe (patterns fileConfig) (excludePatterns fileConfig) userSettingsPath of
                Rejects m \<Rightarrow> (Inl (Error m), s)
              | Resolves found \<Rightarrow>
                  (case copy_batch fe (files_to_working_dir fileConfig fe userSettingsPath
                                          (workingDirectory (gitService s)) found)
                                   (localDisk s) of
                     (res, d') \<Rightarrow>
                       (res, s\<lparr>localDisk := d',
                                gitService := (gitService s)
                                  \<lparr>worktree := status_after_mirror fe (worktree (gitService s))\<rparr>\<rparr>))))"

text \<open>
  \<open>copyFilesFromWorkingDir\<close>: the guard is raised first; the \<open>try\<close> block is
  \<open>mirror_from_working_dir\<close>; the \<open>finally\<close> block arms the timeout that lowers the guard
  one second later, whether or not the block threw.
\<close>

definition mirror_from_working_dir ::
  "config \<Rightarrow> fs_env \<Rightarrow> sync_service \<Rightarrow> unit result \<times> sync_service" where
  "mirror_from_working_dir cfg fe s =
     (case getUserSettingsPath fe of
        Inl err \<Rightarrow> (Inl err, s)
      | Inr userSettingsPath \<Rightarrow>
          (let fileConfig = files_or_default cfg
           in case fg fe (patterns fileConfig) (excludePatterns fileConfig)
                         (workingDirectory (gitService s)) of
                Rejects m \<Rightarrow> (Inl (Error m), s)
              | Resolves found \<Rightarrow>
                  (case copy_batch fe (files_from_working_dir fileConfig fe userSettingsPath
                                          (workingDirectory (gitService s)) found)
                                   (localDisk s) of
                     (res, d') \<Rightarrow> (res, s\<lparr>localDisk := d'\<rparr>))))"

definition copyFilesFromWorkingDir ::
  "config \<Rightarrow> fs_env \<Rightarrow> int \<Rightarrow> sync_service \<Rightarrow> unit result \<times> sync_service" where
  "copyFilesFromWorkingDir cfg fe now s =
     (case mirror_from_working_dir cfg fe (s\<lparr>isApplyingRemoteChanges := True\<rparr>) of
        (res, s') \<Rightarrow>
          (res, s'\<lparr>timeouts := timeouts s' @ [(now + 1000, Release_remote_changes_lock)]\<rparr>))"

text \<open>
  The callbacks that release a guard, and the host running the timeouts that have
  fallen due at \<open>now\<close>, in the order they were armed.
\<close>

fun run_timeout :: "timeout_callback \<Rightarrow> sync_service \<Rightarrow> sync_service" where
  "run_timeout Release_sync_lock s = s\<lparr>isSyncing := False\<rparr>"
| "run_timeout Release_remote_changes_lock s = s\<lparr>isApplyingRemoteChanges := False\<rparr>"

definition fire_due_timeouts :: "int \<Rightarrow> sync_service \<Rightarrow> sync_service" where
  "fire_due_timeouts now s =
     fold run_timeout (map snd (filter (\<lambda>t. fst t \<le> now) (timeouts s)))
          (s\<lparr>timeouts := filter (\<lambda>t. \<not> fst t \<le> now) (timeouts s)\<rparr>)"

subsection \<open>SyncService: sync, forcePush, forcePull\<close>

definition sync_push_branch :: "config \<Rightarrow> env \<Rightarrow> sync_service \<Rightarrow> unit result \<times> sync_service" where
  "sync_push_branch cfg e s =
     seq [copyFilesToWorkingDir cfg (files_env e),
          extensionService_pushExtensions cfg e,
          gitService_push cfg (push_replies e)] s"

definition sync_pull_branch :: "config \<Rightarrow> env \<Rightarrow> int \<Rightarrow> sync_service \<Rightarrow> unit result \<times> sync_service" where
  "sync_pull_branch cfg e now s =
     (case gitService_pull (pull_reply e) (written_during_pull e) s of
        (Inl err, s1) \<Rightarrow> (Inl err, s1)
      | (Inr _, s1) \<Rightarrow>
          (case gitService_hasChanges (status_second e) s1 of
             (Inl err, s2) \<Rightarrow> (Inl err, s2)
           | (Inr hasRemoteChanges, s2) \<Rightarrow>
               if hasRemoteChanges
               then seq [copyFilesFromWorkingDir cfg (files_env e) now,
                         extensionService_pullExtensions cfg (host_env e)] s2
               else (Inr (), s2)))"

definition sync_locked :: "config \<Rightarrow> env \<Rightarrow> int \<Rightarrow> sync_service \<Rightarrow> unit result \<times> sync_service" where
  "sync_locked cfg e now s =
     (case gitService_hasChanges (status_first e) (s\<lparr>isSyncing := True\<rparr>) of
        (Inl err, s1) \<Rightarrow> (Inl err, s1)
      | (Inr hasLocalChanges, s1) \<Rightarrow>
          if hasLocalChanges then sync_push_branch cfg e s1
          else sync_pull_branch cfg e now s1)"

definition sync :: "config \<Rightarrow> env \<Rightarrow> int \<Rightarrow> sync_service \<Rightarrow> unit result \<times> sync_service" where
  "sync cfg e now s =
     (if \<not> isEnabled s then (Inr (), s)
      else if isSyncing s then (Inr (), s)
      else if \<not> isInitialized (gitService s)
      then (Inl (Error ''Git service not initialized''), s)
      else case sync_locked cfg e now s of
             (res, s') \<Rightarrow>
               (res, s'\<lparr>timeouts := timeouts s' @ [(now + 1000, Release_sync_lock)]\<rparr>))"

definition forcePush :: "config \<Rightarrow> env \<Rightarrow> sync_service \<Rightarrow> unit result \<times> sync_service" where
  "forcePush cfg e s =
     (case seq [copyFilesToWorkingDir cfg (files_env e),
                extensionService_pushExtensions cfg e,
                gitService_forcePush cfg (force_push_replies e)] s of
        (Inl err, s') \<Rightarrow> (Inl (Error (''Force push failed: '' @ message err)), s')
      | (Inr u, s') \<Rightarrow> (Inr u, s'))"

definition forcePull :: "config \<Rightarrow> env \<Rightarrow> int \<Rightarrow> sync_service \<Rightarrow> unit result \<times> sync_service" where
  "forcePull cfg e now s =
     (case seq [gitService_forcePull (force_pull_replies e),
                copyFilesFromWorkingDir cfg (files_env e) now,
                extensionService_pullExtensions cfg (host_env e)] s of
        (Inl err, s') \<Rightarrow> (Inl (Error (''Force pull failed: '' @ message err)), s')
      | (Inr u, s') \<Rightarrow> (Inr u, s'))"

subsection \<open>SyncService: change detection\<close>

text \<open>
  \<open>handleFileChange\<close> drops the event when the service is disabled or one of the two
  guards is up; otherwise it clears the pending debounce timer and arms a new one, for
  the delay \<open>setTimeout\<close> makes of \<open>debounceDelay * 1000\<close>.
  \<open>handleFileEvent\<close> is the handler the watchers share: an event less than
  \<open>EVENT_THRESHOLD\<close> after the last one it let through for the same path is skipped.
\<close>

definition handleFileChange :: "config \<Rightarrow> int \<Rightarrow> sync_service \<Rightarrow> sync_service" where
  "handleFileChange cfg now s =
     (if \<not> isEnabled s \<or> isSyncing s \<or> isApplyingRemoteChanges s then s
      else s\<lparr>debounceTimer := Some (now + node_delay (debounceDelay cfg * 1000))\<rparr>)"

definition EVENT_THRESHOLD :: int where
  "EVENT_THRESHOLD = 100"

definition lastTime_or_0 :: "sync_service \<Rightarrow> string \<Rightarrow> int" where
  "lastTime_or_0 s fsPath = (case lastEventTime s fsPath of None \<Rightarrow> 0 | Some t \<Rightarrow> t)"

definition handleFileEvent :: "config \<Rightarrow> string \<Rightarrow> int \<Rightarrow> sync_service \<Rightarrow> sync_service" where
  "handleFileEvent cfg fsPath now s =
     (if now - lastTime_or_0 s fsPath < EVENT_THRESHOLD then s
      else handleFileChange cfg now (s\<lparr>lastEventTime := (lastEventTime s)(fsPath := Some now)\<rparr>))"

text \<open>
  The callback of the debounce timer: mirror the live files into the working directory,
  then run \<open>sync\<close> if the working directory has changes. It looks at no guard itself.
\<close>

definition debounce_expired :: "config \<Rightarrow> env \<Rightarrow> int \<Rightarrow> sync_service \<Rightarrow> unit result \<times> sync_service" where
  "debounce_expired cfg e now s =
     (case copyFilesToWorkingDir cfg (files_env e) s of
        (Inl err, s1) \<Rightarrow> (Inl err, s1)
      | (Inr _, s1) \<Rightarrow>
          (case gitService_hasChanges (status_on_expiry e) s1 of
             (Inl err, s2) \<Rightarrow> (Inl err, s2)
           | (Inr changed, s2) \<Rightarrow> if changed then sync cfg e now s2 else (Inr (), s2)))"

text \<open>
  A burst of events for one path, in the order of their arrival times. Before an event
  is handled, a debounce timer that has fallen due fires; after the last event the
  pending timer fires when it falls due. The result lists the times at which the timer
  fired. \<open>expired\<close> is what the callback does to the service when it fires at a given
  time.
\<close>

fun deliver_burst ::
  "(int \<Rightarrow> sync_service \<Rightarrow> sync_service) \<Rightarrow> config \<Rightarrow> string \<Rightarrow> int list \<Rightarrow> sync_service
   \<Rightarrow> int list \<times> sync_service" where
  "deliver_burst expired cfg fsPath [] s =
     (case debounceTimer s of
        None \<Rightarrow> ([], s)
      | Some due \<Rightarrow> ([due], expired due (s\<lparr>debounceTimer := None\<rparr>)))"
| "deliver_burst expired cfg fsPath (now # later) s =
     (case debounceTimer s of
        None \<Rightarrow> deliver_burst expired cfg fsPath later (handleFileEvent cfg fsPath now s)
      | Some due \<Rightarrow>
          if due \<le> now
          then (case deliver_burst expired cfg fsPath later
                       (handleFileEvent cfg fsPath now (expired due (s\<lparr>debounceTimer := None\<rparr>))) of
                  (fired, s') \<Rightarrow> (due # fired, s'))
          else deliver_burst expired cfg fsPath later (handleFileEvent cfg fsPath now s))"

text \<open>
  The events of a burst that the 100 ms filter of \<open>handleFileEvent\<close> lets through, given
  the time of the last event it let through before.
\<close>

fun surviving :: "int \<Rightarrow> int list \<Rightarrow> int list" where
  "surviving lastTime [] = []"
| "surviving lastTime (now # later) =
     (if now - lastTime < EVENT_THRESHOLD then surviving lastTime later
      else now # surviving now later)"

fun spaced_less :: "int \<Rightarrow> int list \<Rightarrow> bool" where
  "spaced_less delay [] = True"
| "spaced_less delay [t] = True"
| "spaced_less delay (t # u # rest) = (u < t + delay \<and> spaced_less delay (u # rest))"

subsection \<open>SyncService: set-up and initialize\<close>

text \<open>
  \<open>setupFileWatcher\<close> calls \<open>getUserSettingsPath\<close> before it reads the configuration and
  outside any \<open>try\<close>, so it throws what that throws. Each watcher is set up inside its own
  \<open>try\<close>: one that cannot be created is logged and left out. For an external file the
  parent directory is created first when it is missing, then a watcher registered under
  the same path is closed, then the parent directory is watched and, when the file
  exists, the file itself.
\<close>

definition add_pattern_watcher :: "fs_env \<Rightarrow> string \<Rightarrow> sync_service \<Rightarrow> sync_service" where
  "add_pattern_watcher fe pattern s =
     (if createWatcher_throws fe pattern then s
      else s\<lparr>disposables := disposables s @ [Pattern_watcher pattern]\<rparr>)"

definition add_external_watcher :: "fs_env \<Rightarrow> string \<times> string \<Rightarrow> sync_service \<Rightarrow> sync_service" where
  "add_external_watcher fe externalFile s =
     (let sourcePath = expand_home fe (fst externalFile)
      in if mkdirSync_throws fe (path_dirname sourcePath) then s
         else let s1 = s\<lparr>watchedFiles := removeAll sourcePath (watchedFiles s)\<rparr>
              in if watch_throws fe (path_dirname sourcePath) then s1
                 else if existsSync (localDisk s1) sourcePath then
                   (if watch_throws fe sourcePath then s1
                    else s1\<lparr>watchedFiles :=
                              List.insert (sourcePath @ ''-direct'')
                                (List.insert sourcePath (watchedFiles s1)),
                            disposables := disposables s1 @ [Native_watchers sourcePath]\<rparr>)
                 else s1\<lparr>watchedFiles := List.insert sourcePath (watchedFiles s1),
                         disposables := disposables s1 @ [Native_watcher sourcePath]\<rparr>)"

definition setupFileWatcher :: "config \<Rightarrow> fs_env \<Rightarrow> sync_service \<Rightarrow> unit result \<times> sync_service" where
  "setupFileWatcher cfg fe s =
     (case getUserSettingsPath fe of
        Inl err \<Rightarrow> (Inl err, s)
      | Inr userSettingsPath \<Rightarrow>
          (case filesConfig cfg of
             None \<Rightarrow> (Inr (), s)
           | Some fileConfig \<Rightarrow>
               (Inr (), fold (add_external_watcher fe) (externalFiles fileConfig)
                          (fold (add_pattern_watcher fe) (patterns fileConfig)
                             (s\<lparr>lastEventTime := (\<lambda>p. None)\<rparr>)))))"

definition setupPeriodicSync :: "config \<Rightarrow> int \<Rightarrow> sync_service \<Rightarrow> sync_service" where
  "setupPeriodicSync cfg now s =
     s\<lparr>syncTimer := Some (now + node_delay (syncInterval cfg * 1000))\<rparr>"

definition setupExtensionWatcher :: "sync_service \<Rightarrow> sync_service" where
  "setupExtensionWatcher s = s\<lparr>disposables := disposables s @ [Extension_watcher]\<rparr>"

text \<open>
  The \<open>try\<close> block of \<open>initialize\<close> that pulls on launch; \<open>initialize\<close> catches whatever it
  throws and goes on with the state it left. What \<open>setupFileWatcher\<close> throws afterwards
  is not caught: \<open>initialize\<close> rejects with it, before the periodic timer is armed and
  before the service is enabled.
\<close>

definition initial_pull :: "config \<Rightarrow> env \<Rightarrow> int \<Rightarrow> sync_service \<Rightarrow> unit result \<times> sync_service" where
  "initial_pull cfg e now s =
     (case gitService_pull (pull_reply e) (written_during_pull e) s of
        (Inl err, s1) \<Rightarrow> (Inl err, s1)
      | (Inr _, s1) \<Rightarrow>
          (case gitService_hasChanges (status_first e) s1 of
             (Inl err, s2) \<Rightarrow> (Inl err, s2)
           | (Inr hasRemoteChanges, s2) \<Rightarrow>
               if hasRemoteChanges
               then seq [copyFilesFromWorkingDir cfg (files_env e) now,
                         extensionService_pullExtensions cfg (host_env e)] s2
               else (Inr (), s2)))"

definition finish_initialize :: "config \<Rightarrow> env \<Rightarrow> int \<Rightarrow> sync_service \<Rightarrow> unit result \<times> sync_service" where
  "finish_initialize cfg e now s =
     (case setupFileWatcher cfg (files_env e) s of
        (Inl err, s1) \<Rightarrow> (Inl err, s1)
      | (Inr _, s1) \<Rightarrow>
          (Inr (), (setupExtensionWatcher (setupPeriodicSync cfg now s1))\<lparr>isEnabled := True\<rparr>))"

definition initialize :: "config \<Rightarrow> env \<Rightarrow> int \<Rightarrow> sync_service \<Rightarrow> unit result \<times> sync_service" where
  "initialize cfg e now s =
     (case git_initialize cfg (init_replies e) (gitService s) of
        (Inl err, g') \<Rightarrow> (Inl err, s\<lparr>gitService := g'\<rparr>)
      | (Inr _, g') \<Rightarrow>
          (let s1 = s\<lparr>gitService := g'\<rparr>;
               s2 = (if pullOnLaunch cfg then snd (initial_pull cfg e now s1) else s1)
           in finish_initialize cfg e now s2))"

text \<open>
  The watchers \<open>setupFileWatcher\<close> is to leave registered: one per pattern whose watcher
  could be created, then one per external file whose parent directory could be made
  and watched, a pair when the file exists and can be watched itself, none when it
  exists and cannot.
\<close>

definition pattern_watchers :: "fs_env \<Rightarrow> files_config \<Rightarrow> disposable list" where
  "pattern_watchers fe fileConfig =
     map Pattern_watcher (filter (\<lambda>pattern. \<not> createWatcher_throws fe pattern) (patterns fileConfig))"

definition external_watcher :: "fs_env \<Rightarrow> disk \<Rightarrow> string \<times> string \<Rightarrow> disposable list" where
  "external_watcher fe d externalFile =
     (let sourcePath = expand_home fe (fst externalFile)
      in if mkdirSync_throws fe (path_dirname sourcePath)
            \<or> watch_throws fe (path_dirname sourcePath) then []
         else if existsSync d sourcePath
         then (if watch_throws fe sourcePath then [] else [Native_watchers sourcePath])
         else [Native_watcher sourcePath])"

definition external_watchers :: "fs_env \<Rightarrow> disk \<Rightarrow> files_config \<Rightarrow> disposable list" where
  "external_watchers fe d fileConfig =
     concat (map (external_watcher fe d) (externalFiles fileConfig))"

definition expected_watchers :: "config \<Rightarrow> fs_env \<Rightarrow> disk \<Rightarrow> disposable list" where
  "expected_watchers cfg fe d =
     (case filesConfig cfg of
        None \<Rightarrow> []
      | Some fileConfig \<Rightarrow> pattern_watchers fe fileConfig @ external_watchers fe d fileConfig)"

subsection \<open>Concrete inputs\<close>

text \<open>
  The configuration of the specification's scenario with the defaults of the source; an
  initialised git service with a clean working directory and nothing unpushed; a status
  that lists one untracked file; the replies of a remote that lets itself be pulled from
  but rejects every push, with the user choosing to retry, first with nothing written
  while the prompt is open, then with the debounce callback copying the live files into
  the working directory meanwhile.
\<close>

definition default_config :: config where
  "default_config =
     \<lparr>repositoryUrl = ''https://example.org/settings.git'', branch = ''main'',
      pullBeforePush = True, pullBeforeForcePush = False, syncInterval = 300,
      debounceDelay = 5, pullOnLaunch = True,
      filesConfig = Some \<lparr>patterns = [''settings.json''], excludePatterns = [],
                           externalFiles = [(''~/.bashrc'', ''shell/bashrc'')]\<rparr>,
      extensionsSync = True, extensionsAutoRemove = False\<rparr>"

definition ready_git :: git_service where
  "ready_git = \<lparr>workingDirectory = ''/storage/settings-sync'', initialized = True,
                 worktree = clean_status, unpushed = 0, issued = []\<rparr>"

definition dirty_status :: status_result where
  "dirty_status = \<lparr>modified = [], not_added = [''keybindings.json''], deleted = []\<rparr>"

definition conflict_replies :: push_env where
  "conflict_replies =
     \<lparr>pre_pull = Resolves (), first_add = Resolves (), first_commit = Resolves (),
      first_push = Rejects ''rejected'', rollback = Resolves (),
      written_during_prompt = None, choice = Some ''Pull and Retry'',
      retry_pull = Resolves (), retry_add = Resolves (), retry_commit = Resolves (),
      retry_push = Rejects ''rejected''\<rparr>"

definition conflict_replies_rewritten :: push_env where
  "conflict_replies_rewritten = conflict_replies\<lparr>written_during_prompt := Some dirty_status\<rparr>"

text \<open>
  An environment in which every call resolves, the live files equal their copies in the
  working directory and the glob finds one file per pattern; a host with one built-in
  and two installed extensions and a synced list; a disk with the live settings file and
  its copy in the working directory; the service as it is between two syncs, and as it
  is before \<open>initialize\<close>.
\<close>

definition accepting_replies :: push_env where
  "accepting_replies =
     \<lparr>pre_pull = Resolves (), first_add = Resolves (), first_commit = Resolves (),
      first_push = Resolves (), rollback = Resolves (), written_during_prompt = None,
      choice = None,
      retry_pull = Resolves (), retry_add = Resolves (), retry_commit = Resolves (),
      retry_push = Resolves ()\<rparr>"

definition calm_files :: fs_env where
  "calm_files =
     \<lparr>fg = (\<lambda>pats ignore cwd. Resolves (map (path_join cwd) pats)),
      settingsDir = Resolves ''/home/u/.config/Code/User'', home = ''/home/u'',
      mkdir_reply = (\<lambda>dir. Resolves ()), copyFile_reply = (\<lambda>source target. Resolves ()),
      mkdirSync_throws = (\<lambda>dir. False),
      createWatcher_throws = (\<lambda>pattern. False), watch_throws = (\<lambda>path. False),
      status_after_mirror = (\<lambda>st. st)\<rparr>"

definition calm_host :: ext_env where
  "calm_host =
     \<lparr>install_reply = (\<lambda>i. Resolves ()), uninstall_reply = (\<lambda>i. Resolves ()),
      write_reply = Resolves ()\<rparr>"

definition calm_env :: env where
  "calm_env =
     \<lparr>init_replies = \<lparr>makeWorkingDirectory = Resolves (), isRepo = True,
                       init_reply = Resolves (), addRemote_reply = Resolves (),
                       fetch_reply = Resolves (), checkout_reply = Resolves (),
                       checkoutLocalBranch_reply = Resolves (), branch_pull_reply = Resolves ()\<rparr>,
      status_on_expiry = Resolves (),
      status_first = Resolves (),
      status_second = Resolves (),
      pull_reply = Resolves (),
      written_during_pull = None,
      push_replies = accepting_replies,
      force_push_replies = \<lparr>fp_pull = Resolves (), fp_add = Resolves (),
                             fp_commit = Resolves (), fp_push = Resolves ()\<rparr>,
      force_pull_replies = \<lparr>fpl_fetch = Resolves (), fpl_revparse = Resolves ''main'',
                             fpl_reset = Resolves ()\<rparr>,
      files_env = calm_files,
      host_env = calm_host,
      status_after_snapshot = (\<lambda>st. st)\<rparr>"

definition some_host :: extension_host where
  "some_host =
     \<lparr>allExtensions = [\<lparr>ext_id = ''vscode.git'', ext_version = ''1.0.0'', isBuiltin = True\<rparr>,
                       \<lparr>ext_id = ''a'', ext_version = ''1.2.0'', isBuiltin = False\<rparr>,
                       \<lparr>ext_id = ''c'', ext_version = ''0.3.1'', isBuiltin = False\<rparr>],
      executed = [],
      extensionsFile = Listed [\<lparr>info_id = ''a'', info_version = Some ''1.2.0''\<rparr>,
                               \<lparr>info_id = ''b'', info_version = Some ''2.0.0''\<rparr>,
                               \<lparr>info_id = ''vscode.git'', info_version = None\<rparr>]\<rparr>"

definition some_disk :: disk where
  "some_disk =
     \<lparr>files = ((\<lambda>p. None)
                (''/home/u/.config/Code/User/settings.json'' := Some ''{ tabSize: 2 }'',
                 ''/storage/settings-sync/settings.json'' := Some ''{}'')),
      console = []\<rparr>"

definition idle_service :: sync_service where
  "idle_service =
     \<lparr>isEnabled = True, isSyncing = False, isApplyingRemoteChanges = False,
      debounceTimer = None, syncTimer = None, timeouts = [],
      lastEventTime = (\<lambda>p. None), disposables = [Config_watcher], watchedFiles = [],
      gitService = ready_git, extensionHost = some_host, localDisk = some_disk\<rparr>"

definition stopped_service :: sync_service where
  "stopped_service =
     idle_service\<lparr>isEnabled := False, gitService := ready_git\<lparr>initialized := False\<rparr>\<rparr>"

text \<open>The idle service with an untracked file in its working directory.\<close>

definition changed_service :: sync_service where
  "changed_service = idle_service\<lparr>gitService := ready_git\<lparr>worktree := dirty_status\<rparr>\<rparr>"

subsection \<open>The reconciliation the specification asks for\<close>

text \<open>
  The specification's words for \<open>pull\<close>: the ids to install are those of the synced list
  that are not installed; the ids to remove are those of the installed extensions that
  are not built in and not in the synced list.
\<close>

definition spec_missing :: "extension_host \<Rightarrow> extension_info list \<Rightarrow> string list" where
  "spec_missing h synced =
     filter (\<lambda>i. i \<notin> set (map ext_id (allExtensions h))) (map info_id synced)"

definition spec_extra :: "extension_host \<Rightarrow> extension_info list \<Rightarrow> string list" where
  "spec_extra h synced =
     map ext_id (filter (\<lambda>x. \<not> isBuiltin x \<and> ext_id x \<notin> set (map info_id synced))
                        (allExtensions h))"

definition new_commands :: "extension_host \<Rightarrow> extension_host \<Rightarrow> host_command list" where
  "new_commands h h' = drop (length (executed h)) (executed h')"

section \<open>Properties\<close>

subsection \<open>Unfolding the model\<close>

lemmas push_defs =
  git_push_def push_attempt_def push_rejected_def push_retry_def git_run_def isInitialized_def
  others_wrote_def tracked_restored_def has_changes_def clean_status_def

lemmas call_defs = gitService_hasChanges_def gitService_pull_def gitService_push_def
  gitService_forcePush_def gitService_forcePull_def extensionService_pushExtensions_def
  extensionService_pullExtensions_def copyFilesToWorkingDir_def copyFilesFromWorkingDir_def
  mirror_from_working_dir_def getUserSettingsPath_def

lemmas sync_defs = sync_def sync_locked_def sync_push_branch_def sync_pull_branch_def

lemmas fixture_defs = default_config_def ready_git_def calm_env_def calm_files_def calm_host_def
  accepting_replies_def clean_status_def dirty_status_def some_host_def some_disk_def
  idle_service_def stopped_service_def changed_service_def conflict_replies_def
  conflict_replies_rewritten_def

lemmas model_defs = git_run_def git_pull_def git_initialize_def checkout_branch_def
  branch_or_main_def isInitialized_def hasChanges_def has_changes_def others_wrote_def
  tracked_restored_def
  pushExtensions_def pullExtensions_def readSyncedExtensions_def saveExtensionsToFile_def
  getCurrentExtensions_def installMissingExtensions_def removeExtraExtensions_def
  install_one_def uninstall_one_def
  copy_batch_def copyFile_def copy_failure_def existsSync_def files_to_working_dir_def
  files_from_working_dir_def files_or_default_def expand_home_def startsWith_tilde_def
  path_join_def path_normalize_def path_relative_def path_dirname_def path_isAbsolute_def


subsection \<open>GitService.push after a rejected push\<close>

text \<open>
  When the first push is rejected, \<open>push\<close> resets to \<open>HEAD~1\<close> before it asks the user.
  The reset takes back the commit of the first attempt and leaves the working directory
  clean, so a retry that runs on the working directory as the reset left it commits
  nothing: if the retry fails, the branch carries no commit it did not carry before.
\<close>

lemma push_retry_on_clean_tree:
  assumes "\<not> has_changes (worktree g)" and "fst (push_retry e g) \<noteq> Inr ()"
  shows "unpushed (snd (push_retry e g)) = unpushed g"
  using assms
  by (cases "retry_pull e"; cases "retry_add e"; cases "retry_commit e"; cases "retry_push e")
     (simp_all add: push_retry_def git_run_def)

lemma push_rejected_on_clean_tree:
  assumes "\<not> has_changes (worktree g)"
    and "rollback e = Resolves ()" and "choice e = Some ''Pull and Retry''"
    and "written_during_prompt e = None"
    and "fst (push_rejected cfg e g) \<noteq> Inr ()"
  shows "unpushed (snd (push_rejected cfg e g)) = unpushed g - 1"
proof -
  let ?g = "snd (git_run (rollback e) (Git_reset_hard ''HEAD~1'') g)"
  have run: "push_rejected cfg e g = push_retry e ?g"
    using assms(2-4) by (simp add: push_rejected_def git_run_def others_wrote_def)
  have clean: "\<not> has_changes (worktree ?g)"
    using assms(1,2) by (simp add: git_run_def tracked_restored_def has_changes_def)
  have "unpushed ?g = unpushed g - 1"
    using assms(2) by (simp add: git_run_def)
  with push_retry_on_clean_tree [OF clean] assms(5) run show ?thesis by simp
qed

lemma commit_leaves_clean_tree:
  "\<not> has_changes (worktree (snd (git_run (Resolves ()) (Git_commit m) g)))"
  by (simp add: git_run_def has_changes_def clean_status_def)

lemma commit_adds_at_most_one:
  "unpushed (snd (git_run (Resolves ()) (Git_commit m) g)) \<le> unpushed g + 1"
  by (simp add: git_run_def)

lemma push_attempt_sequential:
  assumes "\<not> has_changes (worktree g)"
    and "first_push e = Rejects m" and "rollback e = Resolves ()"
    and "choice e = Some ''Pull and Retry''"
    and "written_during_prompt e = None"
    and "fst (push_attempt cfg e g) \<noteq> Inr ()"
  shows "unpushed (snd (push_attempt cfg e g)) = unpushed g - 1"
proof -
  let ?g = "snd (git_run (first_push e) Git_push g)"
  have run: "push_attempt cfg e g = push_rejected cfg e ?g"
    using assms(2) by (simp add: push_attempt_def git_run_def)
  have "\<not> has_changes (worktree ?g)" and "unpushed ?g = unpushed g"
    using assms(1,2) by (simp_all add: git_run_def)
  with push_rejected_on_clean_tree [of ?g e cfg] assms(3-6) run show ?thesis by simp
qed

lemma push_conflict_sequential:
  assumes "initialized g"
    and "first_push e = Rejects m" and "rollback e = Resolves ()"
    and "choice e = Some ''Pull and Retry''"
    and "written_during_prompt e = None"
    and "fst (git_push cfg e g) \<noteq> Inr ()"
  shows "unpushed (snd (git_push cfg e g)) \<le> unpushed g"
proof -
  let ?pre = "\<lambda>g. if pullBeforePush cfg then git_run (pre_pull e) Git_pull_rebase g else (Inr (), g)"
  obtain r1 g1 where s1: "?pre g = (r1, g1)" by (cases "?pre g")
  have u1: "unpushed g1 = unpushed g"
    using s1 by (cases "pre_pull e") (auto simp: git_run_def split: if_splits)
  obtain r2 g2 where s2: "git_run (first_add e) (Git_add ''.'') g1 = (r2, g2)"
    by (cases "git_run (first_add e) (Git_add ''.'') g1")
  have u2: "unpushed g2 = unpushed g1"
    using s2 by (cases "first_add e") (auto simp: git_run_def)
  show ?thesis
  proof (cases r1)
    case (Inl err)
    with s1 u1 assms(1) show ?thesis by (simp add: git_push_def isInitialized_def)
  next
    case r1: (Inr u)
    show ?thesis
    proof (cases r2)
      case (Inl err)
      with s1 s2 r1 u1 u2 assms(1) show ?thesis by (simp add: git_push_def isInitialized_def)
    next
      case r2: (Inr u')
      show ?thesis
      proof (cases "first_commit e")
        case (Rejects m')
        with s1 s2 r1 r2 u1 u2 assms(1) show ?thesis
          by (simp add: git_push_def isInitialized_def git_run_def)
      next
        case (Resolves x)
        let ?g3 = "snd (git_run (Resolves ()) (Git_commit ''Update settings'') g2)"
        have run: "git_push cfg e g =
                     (case push_attempt cfg e ?g3 of
                        (Inl err, g') \<Rightarrow>
                          (Inl (Error (''Failed to push changes: '' @ message err)), g')
                      | (Inr u, g') \<Rightarrow> (Inr u, g'))"
          using s1 s2 r1 r2 Resolves assms(1)
          by (auto simp: git_push_def isInitialized_def git_run_def split: prod.splits sum.splits)
        have failed: "fst (push_attempt cfg e ?g3) \<noteq> Inr ()"
          using assms(6) run by (auto split: prod.splits sum.splits)
        have "unpushed (snd (push_attempt cfg e ?g3)) = unpushed ?g3 - 1"
          using push_attempt_sequential [OF commit_leaves_clean_tree assms(2-5) failed] .
        moreover have "unpushed (snd (git_push cfg e g)) = unpushed (snd (push_attempt cfg e ?g3))"
          using run by (auto split: prod.splits sum.splits)
        ultimately show ?thesis
          using commit_adds_at_most_one [of "''Update settings''" g2] u1 u2 by simp
      qed
    qed
  qed
qed

lemma push_conflict_sequential_run:
  "git_push default_config conflict_replies (ready_git\<lparr>worktree := dirty_status\<rparr>) =
     (Inl (Error ''Failed to push changes: Failed to reconcile changes. Repository location: /storage/settings-sync''),
      ready_git\<lparr>issued := [(Git_pull_rebase, True), (Git_add ''.'', True),
                   (Git_commit ''Update settings'', True), (Git_push, False),
                   (Git_reset_hard ''HEAD~1'', True), (Git_pull_rebase, True),
                   (Git_add ''.'', True), (Git_commit ''Update settings'', True),
                   (Git_push, False)]\<rparr>)"
  by (simp add: push_defs default_config_def conflict_replies_def ready_git_def dirty_status_def)


subsection \<open>The guards of sync\<close>

text \<open>
  Claim C3. A call of \<open>sync\<close> on a disabled service returns normally and does nothing;
  on an enabled service with a sync in flight it returns normally and leaves the whole
  state, the working directory and the git service included, as it was; on an enabled
  service with no sync in flight whose git service is not initialised it throws
  "Git service not initialized".
\<close>

theorem sync_guards:
  "(\<not> isEnabled s \<longrightarrow> sync cfg e now s = (Inr (), s))
 \<and> (isEnabled s \<and> isSyncing s \<longrightarrow> sync cfg e now s = (Inr (), s))
 \<and> (isEnabled s \<and> \<not> isSyncing s \<and> \<not> initialized (gitService s)
      \<longrightarrow> sync cfg e now s = (Inl (Error ''Git service not initialized''), s))"
  by (simp add: sync_def isInitialized_def)

theorem sync_guards_witness:
  "sync default_config calm_env 1000000 (idle_service\<lparr>isEnabled := False\<rparr>)
     = (Inr (), idle_service\<lparr>isEnabled := False\<rparr>)
 \<and> sync default_config calm_env 1000000 (idle_service\<lparr>isSyncing := True\<rparr>)
     = (Inr (), idle_service\<lparr>isSyncing := True\<rparr>)
 \<and> sync default_config calm_env 1000000
        (idle_service\<lparr>gitService := ready_git\<lparr>initialized := False\<rparr>\<rparr>)
     = (Inl (Error ''Git service not initialized''),
        idle_service\<lparr>gitService := ready_git\<lparr>initialized := False\<rparr>\<rparr>)"
  using sync_guards [of "idle_service\<lparr>isEnabled := False\<rparr>" default_config calm_env 1000000]
    sync_guards [of "idle_service\<lparr>isSyncing := True\<rparr>" default_config calm_env 1000000]
    sync_guards [of "idle_service\<lparr>gitService := ready_git\<lparr>initialized := False\<rparr>\<rparr>"
                    default_config calm_env 1000000]
  by (simp add: idle_service_def ready_git_def)


subsection \<open>Sources that do not exist\<close>

lemma copyFile_missing:
  assumes "\<not> existsSync d source"
  shows "fst (copyFile fe source target d) = Inr ()"
    and "files (snd (copyFile fe source target d)) = files d"
    and "console (snd (copyFile fe source target d)) =
           console d @ [(if CHR ''~'' \<in> set source \<or> path_isAbsolute source
                         then ''Optional external file not found: ''
                         else ''Source file does not exist: '') @ source]"
  using assms by (simp_all add: copyFile_def)

lemma copy_batch_Cons:
  "copy_batch fe ((source, target) # rest) d =
     (case copyFile fe source target d of
        (Inl err, d') \<Rightarrow> (Inl err, d')
      | (Inr _, d') \<Rightarrow> copy_batch fe rest d')"
  unfolding copy_batch_def by simp

lemma copy_batch_skips_missing:
  assumes "\<not> existsSync d source"
  shows "copy_batch fe ((source, target) # rest) d =
           copy_batch fe rest (snd (copyFile fe source target d))"
  using copyFile_missing(1) [OF assms, of fe target]
  by (cases "copyFile fe source target d") (simp add: copy_batch_Cons)

lemma copyFile_error:
  assumes "copyFile fe source target d = (Inl err, d')"
  shows "existsSync d source \<and>
         (\<exists>m. err = copy_failure source target m
             \<and> (mkdir_reply fe (path_dirname target) = Rejects m
                \<or> copyFile_reply fe source target = Rejects m))"
  using assms by (auto simp: copyFile_def split: if_splits reply.splits)

lemma copy_batch_error:
  assumes "fst (copy_batch fe batch d) = Inl err"
  shows "\<exists>source target m. (source, target) \<in> set batch \<and> err = copy_failure source target m
           \<and> (mkdir_reply fe (path_dirname target) = Rejects m
              \<or> copyFile_reply fe source target = Rejects m)"
  using assms
proof (induction batch arbitrary: d)
  case Nil
  then show ?case by (simp add: copy_batch_def)
next
  case (Cons p batch)
  obtain source target where p: "p = (source, target)" by (cases p)
  show ?case
  proof (cases "copyFile fe source target d")
    case (Pair res d')
    show ?thesis
    proof (cases res)
      case (Inl e)
      with Pair Cons.prems p have "err = e" by (simp add: copy_batch_Cons)
      with copyFile_error [of fe source target d err d'] Pair Inl p show ?thesis by auto
    next
      case (Inr u)
      with Pair Cons.prems p have "fst (copy_batch fe batch d') = Inl err"
        by (simp add: copy_batch_Cons)
      from Cons.IH [OF this] show ?thesis by auto
    qed
  qed
qed

text \<open>
  Claim C8. \<open>copyFile\<close> returns normally whenever its source does not exist: it writes
  one line to the console (which of the two depends on the form of the path), leaves the
  files alone, and the batch goes on with the copies that remain. A batch throws only
  the failure of a \<open>mkdir\<close> or a copy that was rejected, never a missing source.
\<close>

theorem missing_source_is_skipped:
  "(\<not> existsSync d source \<longrightarrow>
      fst (copyFile fe source target d) = Inr ()
    \<and> files (snd (copyFile fe source target d)) = files d
    \<and> console (snd (copyFile fe source target d)) =
        console d @ [(if CHR ''~'' \<in> set source \<or> path_isAbsolute source
                      then ''Optional external file not found: ''
                      else ''Source file does not exist: '') @ source]
    \<and> copy_batch fe ((source, target) # rest) d =
        copy_batch fe rest (snd (copyFile fe source target d)))
 \<and> (fst (copy_batch fe batch d) = Inl err \<longrightarrow>
      (\<exists>src tgt m. (src, tgt) \<in> set batch \<and> err = copy_failure src tgt m
         \<and> (mkdir_reply fe (path_dirname tgt) = Rejects m
            \<or> copyFile_reply fe src tgt = Rejects m)))"
  using copyFile_missing [of d source fe target] copy_batch_skips_missing [of d source fe target rest]
    copy_batch_error [of fe batch d err]
  by blast

theorem missing_source_is_skipped_witness:
  "\<not> existsSync some_disk ''/home/u/.bashrc''
 \<and> copyFile calm_files ''/home/u/.bashrc'' ''/storage/settings-sync/shell/bashrc'' some_disk
     = (Inr (), some_disk\<lparr>console := [''Optional external file not found: /home/u/.bashrc'']\<rparr>)
 \<and> fst (copyFilesToWorkingDir
           (default_config\<lparr>filesConfig := Some \<lparr>patterns = [''keybindings.json'', ''settings.json''],
               excludePatterns = [], externalFiles = [(''~/.bashrc'', ''shell/bashrc'')]\<rparr>\<rparr>)
           calm_files idle_service) = Inr ()
 \<and> files (localDisk (snd (copyFilesToWorkingDir
           (default_config\<lparr>filesConfig := Some \<lparr>patterns = [''keybindings.json'', ''settings.json''],
               excludePatterns = [], externalFiles = [(''~/.bashrc'', ''shell/bashrc'')]\<rparr>\<rparr>)
           calm_files idle_service))) ''/storage/settings-sync/settings.json''
     = Some ''{ tabSize: 2 }''"
  using missing_source_is_skipped
          [where d = some_disk and source = "''/home/u/.bashrc''" and fe = calm_files
             and target = "''/storage/settings-sync/shell/bashrc''" and rest = "[]"
             and batch = "[]"]
  by (simp add: fixture_defs model_defs call_defs)


subsection \<open>Reconciling the extensions\<close>

lemma install_one_fields [simp]:
  "executed (install_one e i h) = executed h @ [Install i]"
  "extensionsFile (install_one e i h) = extensionsFile h"
  by (simp_all add: install_one_def split: reply.splits)

lemma uninstall_one_fields [simp]:
  "executed (uninstall_one e i h) = executed h @ [Uninstall i]"
  "extensionsFile (uninstall_one e i h) = extensionsFile h"
  by (simp_all add: uninstall_one_def split: reply.splits)

lemma fold_install_executed:
  "executed (fold (\<lambda>ext. install_one e (info_id ext)) xs h) =
     executed h @ map (\<lambda>ext. Install (info_id ext)) xs"
  by (induction xs arbitrary: h) simp_all

lemma fold_uninstall_executed:
  "executed (fold (\<lambda>ext. uninstall_one e (ext_id ext)) xs h) =
     executed h @ map (\<lambda>ext. Uninstall (ext_id ext)) xs"
  by (induction xs arbitrary: h) simp_all

text \<open>Installing adds to the host's list only extensions with the ids it was asked for.\<close>

lemma install_one_grows:
  "\<exists>added. allExtensions (install_one e i h) = allExtensions h @ added
           \<and> (\<forall>x \<in> set added. ext_id x = i)"
  by (simp add: install_one_def split: reply.splits)

lemma fold_install_grows:
  "\<exists>added. allExtensions (fold (\<lambda>ext. install_one e (info_id ext)) xs h) = allExtensions h @ added
           \<and> (\<forall>x \<in> set added. ext_id x \<in> info_id ` set xs)"
proof (induction xs arbitrary: h)
  case Nil
  then show ?case by simp
next
  case (Cons a xs)
  obtain first where first: "allExtensions (install_one e (info_id a) h) = allExtensions h @ first"
    "\<forall>x \<in> set first. ext_id x = info_id a"
    using install_one_grows by blast
  obtain more where more:
    "allExtensions (fold (\<lambda>ext. install_one e (info_id ext)) xs (install_one e (info_id a) h))
       = allExtensions (install_one e (info_id a) h) @ more"
    "\<forall>x \<in> set more. ext_id x \<in> info_id ` set xs"
    using Cons.IH by blast
  show ?case
    by (rule exI [of _ "first @ more"]) (use first more in auto)
qed

lemma installMissingExtensions_executed:
  "executed (installMissingExtensions e synced h) = executed h @ map Install (spec_missing h synced)"
  by (simp add: installMissingExtensions_def Let_def fold_install_executed spec_missing_def
      filter_map comp_def)

lemma installMissingExtensions_extra:
  "spec_extra (installMissingExtensions e synced h) synced = spec_extra h synced"
proof -
  let ?todo = "filter (\<lambda>ext. info_id ext \<notin> set (map ext_id (allExtensions h))) synced"
  obtain added where added:
    "allExtensions (installMissingExtensions e synced h) = allExtensions h @ added"
    "\<forall>x \<in> set added. ext_id x \<in> info_id ` set ?todo"
    using fold_install_grows [of e ?todo h] by (auto simp: installMissingExtensions_def Let_def)
  then have "filter (\<lambda>x. \<not> isBuiltin x \<and> ext_id x \<notin> set (map info_id synced)) added = []"
    by (auto simp: filter_empty_conv)
  with added(1) show ?thesis by (simp add: spec_extra_def)
qed

lemma removeExtraExtensions_executed:
  "executed (removeExtraExtensions e synced h) = executed h @ map Uninstall (spec_extra h synced)"
  by (simp add: removeExtraExtensions_def Let_def fold_uninstall_executed spec_extra_def comp_def)

lemma pullExtensions_listed:
  assumes "extensionsSync cfg" "extensionsFile h = Listed synced"
  shows "fst (pullExtensions cfg e h) = Inr ()"
    and "new_commands h (snd (pullExtensions cfg e h)) =
           map Install (spec_missing h synced)
           @ (if extensionsAutoRemove cfg then map Uninstall (spec_extra h synced) else [])"
  using assms
  by (simp_all add: pullExtensions_def readSyncedExtensions_def Let_def new_commands_def
      removeExtraExtensions_executed installMissingExtensions_executed
      installMissingExtensions_extra)

lemma pullExtensions_noop:
  "\<not> extensionsSync cfg \<or> extensionsFile h = Absent \<Longrightarrow> pullExtensions cfg e h = (Inr (), h)"
  by (auto simp: pullExtensions_def readSyncedExtensions_def)

text \<open>
  Claim C6. \<open>pullExtensions\<close> does nothing when extension sync is off and nothing when
  the extension file is absent. With sync on and a file that lists \<open>synced\<close>, it returns
  normally and the commands it has sent are exactly: an install for each synced id that
  is not installed, in the order of the list and whether or not an install fails, and
  then, only with auto-remove on, an uninstall for each installed extension that is not
  built in and whose id is not in the list, again whether or not one fails.
\<close>

theorem pullExtensions_reconciles:
  "(\<not> extensionsSync cfg \<longrightarrow> pullExtensions cfg e h = (Inr (), h))
 \<and> (extensionsFile h = Absent \<longrightarrow> pullExtensions cfg e h = (Inr (), h))
 \<and> (extensionsSync cfg \<and> extensionsFile h = Listed synced \<longrightarrow>
       fst (pullExtensions cfg e h) = Inr ()
     \<and> new_commands h (snd (pullExtensions cfg e h)) =
         map Install (spec_missing h synced)
         @ (if extensionsAutoRemove cfg then map Uninstall (spec_extra h synced) else []))"
  using pullExtensions_listed [of cfg h synced e] pullExtensions_noop [of cfg h e] by blast


theorem pullExtensions_reconciles_witness:
  "new_commands some_host (snd (pullExtensions default_config calm_host some_host))
     = [Install ''b'']
 \<and> new_commands some_host
       (snd (pullExtensions (default_config\<lparr>extensionsAutoRemove := True\<rparr>) calm_host some_host))
     = [Install ''b'', Uninstall ''c'']
 \<and> pullExtensions (default_config\<lparr>extensionsAutoRemove := True\<rparr>)
       (calm_host\<lparr>install_reply := (\<lambda>i. Rejects ''offline''),
                   uninstall_reply := (\<lambda>i. Rejects ''offline'')\<rparr>) some_host
     = (Inr (), some_host\<lparr>executed := [Install ''b'', Uninstall ''c'']\<rparr>)
 \<and> pullExtensions (default_config\<lparr>extensionsSync := False\<rparr>) calm_host some_host
     = (Inr (), some_host)
 \<and> pullExtensions default_config calm_host (some_host\<lparr>extensionsFile := Absent\<rparr>)
     = (Inr (), some_host\<lparr>extensionsFile := Absent\<rparr>)"
proof -
  let ?synced = "[\<lparr>info_id = ''a'', info_version = Some ''1.2.0''\<rparr>,
                  \<lparr>info_id = ''b'', info_version = Some ''2.0.0''\<rparr>,
                  \<lparr>info_id = ''vscode.git'', info_version = None\<rparr>]"
  have keep: "new_commands some_host (snd (pullExtensions default_config calm_host some_host))
                = [Install ''b'']"
    using pullExtensions_reconciles
            [where cfg = default_config and e = calm_host and h = some_host and synced = ?synced]
    by (simp add: default_config_def some_host_def spec_missing_def spec_extra_def)
  have remove: "new_commands some_host
       (snd (pullExtensions (default_config\<lparr>extensionsAutoRemove := True\<rparr>) calm_host some_host))
     = [Install ''b'', Uninstall ''c'']"
    using pullExtensions_reconciles
            [where cfg = "default_config\<lparr>extensionsAutoRemove := True\<rparr>" and e = calm_host
               and h = some_host and synced = ?synced]
    by (simp add: default_config_def some_host_def spec_missing_def spec_extra_def)
  have failing: "pullExtensions (default_config\<lparr>extensionsAutoRemove := True\<rparr>)
       (calm_host\<lparr>install_reply := (\<lambda>i. Rejects ''offline''),
                   uninstall_reply := (\<lambda>i. Rejects ''offline'')\<rparr>) some_host
     = (Inr (), some_host\<lparr>executed := [Install ''b'', Uninstall ''c'']\<rparr>)"
    by (simp add: default_config_def some_host_def calm_host_def pullExtensions_def
        readSyncedExtensions_def installMissingExtensions_def removeExtraExtensions_def
        install_one_def uninstall_one_def)
  have off: "pullExtensions (default_config\<lparr>extensionsSync := False\<rparr>) calm_host some_host
     = (Inr (), some_host)"
    using pullExtensions_reconciles
            [where cfg = "default_config\<lparr>extensionsSync := False\<rparr>" and e = calm_host
               and h = some_host]
    by (simp add: default_config_def)
  have absent: "pullExtensions default_config calm_host (some_host\<lparr>extensionsFile := Absent\<rparr>)
     = (Inr (), some_host\<lparr>extensionsFile := Absent\<rparr>)"
    using pullExtensions_reconciles
            [where cfg = default_config and e = calm_host
               and h = "some_host\<lparr>extensionsFile := Absent\<rparr>"]
    by simp
  from keep remove failing off absent show ?thesis by blast
qed


subsection \<open>Built-in extensions\<close>

lemma pullExtensions_commands:
  "new_commands h (snd (pullExtensions cfg e h)) = []
 \<or> (\<exists>synced. new_commands h (snd (pullExtensions cfg e h)) =
        map Install (spec_missing h synced)
        @ (if extensionsAutoRemove cfg then map Uninstall (spec_extra h synced) else []))"
proof (cases "extensionsSync cfg")
  case False
  then show ?thesis by (simp add: pullExtensions_noop new_commands_def)
next
  case True
  show ?thesis
  proof (cases "extensionsFile h")
    case Absent
    then show ?thesis by (simp add: pullExtensions_noop new_commands_def)
  next
    case (Unreadable m)
    with True show ?thesis
      by (simp add: pullExtensions_def readSyncedExtensions_def new_commands_def)
  next
    case (Listed synced)
    with True pullExtensions_listed(2) [of cfg h synced e] show ?thesis by blast
  qed
qed

lemma installed_not_missing:
  "x \<in> set (allExtensions h) \<Longrightarrow> ext_id x \<notin> set (spec_missing h synced)"
  by (simp add: spec_missing_def)

lemma extra_not_builtin:
  "i \<in> set (spec_extra h synced) \<Longrightarrow> \<exists>y \<in> set (allExtensions h). ext_id y = i \<and> \<not> isBuiltin y"
  by (auto simp: spec_extra_def)

lemma builtin_not_extra:
  assumes "x \<in> set (allExtensions h)" "isBuiltin x" "distinct (map ext_id (allExtensions h))"
  shows "ext_id x \<notin> set (spec_extra h synced)"
proof
  assume "ext_id x \<in> set (spec_extra h synced)"
  then obtain y where y: "y \<in> set (allExtensions h)" "ext_id y = ext_id x" "\<not> isBuiltin y"
    using extra_not_builtin by blast
  with assms have "y = x"
    by (meson distinct_map inj_on_def)
  with y assms show False by simp
qed

text \<open>
  Claim C10. The installed ids that \<open>pullExtensions\<close> compares the synced list with
  include the built-in extensions, so it never sends an install for the id of a built-in
  extension; every uninstall it sends is for an installed extension that is not built
  in, so, ids being unique, the id of a built-in extension is never uninstalled,
  whatever the synced list holds.
\<close>

theorem builtins_left_alone:
  "(x \<in> set (allExtensions h) \<and> isBuiltin x \<longrightarrow>
      Install (ext_id x) \<notin> set (new_commands h (snd (pullExtensions cfg e h))))
 \<and> (Uninstall i \<in> set (new_commands h (snd (pullExtensions cfg e h))) \<longrightarrow>
      (\<exists>y \<in> set (allExtensions h). ext_id y = i \<and> \<not> isBuiltin y))
 \<and> (x \<in> set (allExtensions h) \<and> isBuiltin x \<and> distinct (map ext_id (allExtensions h)) \<longrightarrow>
      Uninstall (ext_id x) \<notin> set (new_commands h (snd (pullExtensions cfg e h))))"
  using pullExtensions_commands [of h cfg e] installed_not_missing [of x h]
    extra_not_builtin [of _ h] builtin_not_extra [of x h]
  by (auto split: if_splits)

theorem builtins_left_alone_witness:
  "\<lparr>ext_id = ''vscode.git'', ext_version = ''1.0.0'', isBuiltin = True\<rparr> \<in> set (allExtensions some_host)
 \<and> distinct (map ext_id (allExtensions some_host))
 \<and> Install ''vscode.git'' \<notin> set (new_commands some_host
       (snd (pullExtensions (default_config\<lparr>extensionsAutoRemove := True\<rparr>) calm_host some_host)))
 \<and> Uninstall ''vscode.git'' \<notin> set (new_commands some_host
       (snd (pullExtensions (default_config\<lparr>extensionsAutoRemove := True\<rparr>) calm_host
              (some_host\<lparr>extensionsFile := Listed []\<rparr>))))
 \<and> new_commands some_host
       (snd (pullExtensions (default_config\<lparr>extensionsAutoRemove := True\<rparr>) calm_host
              (some_host\<lparr>extensionsFile := Listed []\<rparr>)))
     = [Uninstall ''a'', Uninstall ''c'']"
proof -
  let ?git = "\<lparr>ext_id = ''vscode.git'', ext_version = ''1.0.0'', isBuiltin = True\<rparr>"
  have here: "?git \<in> set (allExtensions some_host)"
    and ids: "distinct (map ext_id (allExtensions some_host))"
    by (simp_all add: some_host_def)
  have no_install: "Install ''vscode.git'' \<notin> set (new_commands some_host
       (snd (pullExtensions (default_config\<lparr>extensionsAutoRemove := True\<rparr>) calm_host some_host)))"
    using builtins_left_alone
            [where x = ?git and h = some_host
               and cfg = "default_config\<lparr>extensionsAutoRemove := True\<rparr>" and e = calm_host]
      here by simp
  have no_uninstall: "Uninstall ''vscode.git'' \<notin> set (new_commands some_host
       (snd (pullExtensions (default_config\<lparr>extensionsAutoRemove := True\<rparr>) calm_host
              (some_host\<lparr>extensionsFile := Listed []\<rparr>))))"
    using builtins_left_alone
            [where x = ?git and h = "some_host\<lparr>extensionsFile := Listed []\<rparr>"
               and cfg = "default_config\<lparr>extensionsAutoRemove := True\<rparr>" and e = calm_host]
      here ids by (simp add: new_commands_def)
  have removed: "new_commands some_host
       (snd (pullExtensions (default_config\<lparr>extensionsAutoRemove := True\<rparr>) calm_host
              (some_host\<lparr>extensionsFile := Listed []\<rparr>)))
     = [Uninstall ''a'', Uninstall ''c'']"
    by (simp add: default_config_def some_host_def calm_host_def pullExtensions_def
        readSyncedExtensions_def installMissingExtensions_def removeExtraExtensions_def
        install_one_def uninstall_one_def new_commands_def)
  from here ids no_install no_uninstall removed show ?thesis by blast
qed


end
